theory Spec2Isabelle
  imports Main
begin

section \<open>The request-identifier middleware of http-request-id\<close>

text \<open>
  The repository exports one function, \<^verbatim>\<open>requestId(options?)\<close> in \<^verbatim>\<open>src/index.ts\<close>,
  which returns a Connect-style handler \<^verbatim>\<open>(req, res, next) => void\<close>. The handler
  reads and writes three objects of the host (Node's \<^verbatim>\<open>IncomingMessage\<close>,
  \<^verbatim>\<open>ServerResponse\<close> and the continuation) and calls three functions that are
  not its own: the configured \<^verbatim>\<open>generator\<close>, \<^verbatim>\<open>randomUUID\<close> of
  \<^verbatim>\<open>node:crypto\<close>, and \<^verbatim>\<open>res.setHeader\<close>. The embedding makes each of these
  explicit:
  \<^item> the objects are records, threaded through the handler as one \<open>world\<close>;
  \<^item> every call that leaves the handler is appended to a trace of events, together
    with what the call was given or gave back, so that "is invoked exactly once" is a
    statement about that trace;
  \<^item> an exception is the value \<open>Inl\<close>, carrying what was thrown and the world reached
    when it left the handler; the generator can throw, and so can \<^verbatim>\<open>res.setHeader\<close>;
  \<^item> \<^verbatim>\<open>randomUUID\<close> is a parameter: a function drawing a string from an entropy state.

  Strings are lists of 8-bit characters. Nothing below depends on more of a string than
  equality, emptiness and, for \<^verbatim>\<open>res.setHeader\<close>, the codes of its characters.
\<close>

subsection \<open>Data model\<close>

text \<open>
  A header of \<^verbatim>\<open>req.headers\<close> has the type \<^verbatim>\<open>string | string[] | undefined\<close>;
  \<open>undefined\<close> is the \<open>None\<close> of a lookup. Property access on a JavaScript object
  compares keys exactly, so the header collection is a map from strings.
\<close>

datatype header_value = Single string | Multiple "string list"

type_synonym incoming_headers = "string \<rightharpoonup> header_value"

text \<open>
  The handler guards the header collection itself with \<^verbatim>\<open>req.headers?.[...]\<close>, so
  the collection is optional. \<open>requestId\<close> is the field the module declaration adds to
  \<^verbatim>\<open>IncomingMessage\<close> (\<^verbatim>\<open>requestId?: string\<close>).
\<close>

record request =
  headers :: "incoming_headers option"
  requestId :: "string option"

datatype thrown = Thrown string

text \<open>
  \<^verbatim>\<open>RequestIdOptions\<close>: three optional fields. The generator has the declared type
  \<^verbatim>\<open>(req: IncomingMessage) => string\<close>; it either returns a string or throws.
\<close>

record options =
  generator :: "(request \<Rightarrow> thrown + string) option"
  headerName :: "string option"
  setResponseHeader :: "bool option"

subsection \<open>The response of the host\<close>

text \<open>
  \<^verbatim>\<open>res.setHeader\<close> belongs to Node, not to the repository. Its model follows Node's
  \<^verbatim>\<open>OutgoingMessage.prototype.setHeader\<close>: it throws when the headers have already
  been sent, when the name is not an HTTP token (the empty name included) and when the
  value has a character outside tab, the printable ASCII range and \<open>0x80\<close> to
  \<open>0xff\<close>, in this order; otherwise it stores the pair of the name as given and the
  value under the lower-cased name, so that names differing only in case denote one
  header. \<^verbatim>\<open>res.getHeader\<close> reads the value back under the lower-cased name.
  (Node refuses a value with a code unit above \<open>0xff\<close> as well; the strings of this
  model cannot hold one.)
\<close>

record response =
  headersSent :: bool
  outHeaders :: "string \<rightharpoonup> string \<times> string"

definition isTokenChar :: "char \<Rightarrow> bool" where
  "isTokenChar c =
     (let n = (of_char c :: nat)
      in (48 \<le> n \<and> n \<le> 57) \<or> (65 \<le> n \<and> n \<le> 90) \<or> (97 \<le> n \<and> n \<le> 122)
         \<or> n \<in> set [33, 35, 36, 37, 38, 39, 42, 43, 45, 46, 94, 95, 96, 124, 126])"

definition checkIsHttpToken :: "string \<Rightarrow> bool" where
  "checkIsHttpToken name = (name \<noteq> [] \<and> list_all isTokenChar name)"

definition isHeaderChar :: "char \<Rightarrow> bool" where
  "isHeaderChar c =
     (let n = (of_char c :: nat)
      in n = 9 \<or> (32 \<le> n \<and> n \<le> 126) \<or> (128 \<le> n \<and> n \<le> 255))"

definition checkInvalidHeaderChar :: "string \<Rightarrow> bool" where
  "checkInvalidHeaderChar v = (\<not> list_all isHeaderChar v)"

text \<open>Lower-casing of the ASCII letters; the names that reach the store are tokens,
  hence ASCII.\<close>

definition lowerChar :: "char \<Rightarrow> char" where
  "lowerChar c =
     (case map_of (zip ''ABCDEFGHIJKLMNOPQRSTUVWXYZ'' ''abcdefghijklmnopqrstuvwxyz'') c of
        Some l \<Rightarrow> l
      | None \<Rightarrow> c)"

definition toLowerCase :: "string \<Rightarrow> string" where
  "toLowerCase s = map lowerChar s"

definition setHeader :: "string \<Rightarrow> string \<Rightarrow> response \<Rightarrow> thrown + response" where
  "setHeader name v r =
     (if headersSent r then Inl (Thrown ''ERR_HTTP_HEADERS_SENT'')
      else if \<not> checkIsHttpToken name then Inl (Thrown ''ERR_INVALID_HTTP_TOKEN'')
      else if checkInvalidHeaderChar v then Inl (Thrown ''ERR_INVALID_CHAR'')
      else Inr (r\<lparr>outHeaders := (outHeaders r)(toLowerCase name \<mapsto> (name, v))\<rparr>))"

definition getHeader :: "string \<Rightarrow> response \<Rightarrow> string option" where
  "getHeader name r = map_option snd (outHeaders r (toLowerCase name))"

definition setHeaderThrows :: "string \<Rightarrow> string \<Rightarrow> response \<Rightarrow> bool" where
  "setHeaderThrows name v r = (case setHeader name v r of Inl _ \<Rightarrow> True | Inr _ \<Rightarrow> False)"

subsection \<open>The world of one run\<close>

text \<open>The calls the handler makes to functions that are not its own: the generator
  with what it gave back, \<^verbatim>\<open>randomUUID\<close> with the string it drew, \<^verbatim>\<open>res.setHeader\<close>
  with its two arguments, and the continuation with its argument.\<close>

datatype event =
    GeneratorCall "thrown + string"
  | RandomUUIDCall string
  | SetHeaderCall string string
  | NextCall "thrown option"

record 'g world =
  req :: request
  res :: response
  entropy :: 'g
  trace :: "event list"

subsection \<open>The factory and the handler\<close>

text \<open>\<^verbatim>\<open>a ?? b\<close> for a right operand without effects.\<close>

definition coalesce :: "'a option \<Rightarrow> 'a \<Rightarrow> 'a" where
  "coalesce a b = (case a of None \<Rightarrow> b | Some v \<Rightarrow> v)"

text \<open>Line 113: \<^verbatim>\<open>options?.headerName ?? "x-request-id"\<close>.\<close>

definition headerNameOf :: "options option \<Rightarrow> string" where
  "headerNameOf opts = coalesce (Option.bind opts headerName) ''x-request-id''"

text \<open>Line 114: \<^verbatim>\<open>options?.setResponseHeader ?? true\<close>.\<close>

definition setResponseHeaderOf :: "options option \<Rightarrow> bool" where
  "setResponseHeaderOf opts = coalesce (Option.bind opts setResponseHeader) True"

text \<open>
  Line 122: \<^verbatim>\<open>options?.generator?.(req) ?? randomUUID()\<close>. The right operand of
  \<^verbatim>\<open>??\<close> is evaluated only when the left one is nullish; with a generator of the
  declared type that is exactly when no generator is configured. The result is the
  candidate identifier and the world after the call, or what the generator threw.
\<close>

definition generateId ::
    "('g \<Rightarrow> string \<times> 'g) \<Rightarrow> options option \<Rightarrow> 'g world
      \<Rightarrow> thrown \<times> 'g world + string \<times> 'g world" where
  "generateId randomUUID opts w =
     (case Option.bind opts generator of
        Some gen \<Rightarrow>
          (let w1 = w\<lparr>trace := trace w @ [GeneratorCall (gen (req w))]\<rparr>
           in case gen (req w) of
                Inl e \<Rightarrow> Inl (e, w1)
              | Inr s \<Rightarrow> Inr (s, w1))
      | None \<Rightarrow>
          (case randomUUID (entropy w) of
             (u, g') \<Rightarrow> Inr (u, w\<lparr>entropy := g', trace := trace w @ [RandomUUIDCall u]\<rparr>)))"

text \<open>Line 125: \<^verbatim>\<open>req.headers?.[headerName]\<close>.\<close>

definition incomingHeader :: "string \<Rightarrow> request \<Rightarrow> header_value option" where
  "incomingHeader name r = Option.bind (headers r) (\<lambda>h. h name)"

text \<open>
  Lines 126 to 128:
  \<^verbatim>\<open>Array.isArray(incomingHeader) ? incomingHeader?.[0] ?? generatedId : incomingHeader ?? generatedId\<close>.
  Reading index 0 of an empty array gives \<open>undefined\<close>.
\<close>

definition requestIdValue :: "header_value option \<Rightarrow> string \<Rightarrow> string" where
  "requestIdValue incoming generatedId =
     (case incoming of
        Some (Multiple vs) \<Rightarrow> coalesce (case vs of [] \<Rightarrow> None | v # _ \<Rightarrow> Some v) generatedId
      | Some (Single v) \<Rightarrow> coalesce (Some v) generatedId
      | None \<Rightarrow> coalesce None generatedId)"

text \<open>Line 132: the call \<^verbatim>\<open>res.setHeader(headerName, requestIdValue)\<close>, which either
  updates the response or throws.\<close>

definition echoHeader :: "string \<Rightarrow> string \<Rightarrow> 'g world \<Rightarrow> thrown \<times> 'g world + 'g world" where
  "echoHeader name v w =
     (let w1 = w\<lparr>trace := trace w @ [SetHeaderCall name v]\<rparr>
      in case setHeader name v (res w) of
           Inl e \<Rightarrow> Inl (e, w1)
         | Inr r \<Rightarrow> Inr (w1\<lparr>res := r\<rparr>))"

text \<open>
  The handler returned by the factory (lines 116 to 140), closed over the options. The
  record field \<open>requestId\<close> keeps the source's name, so the exported function is
  \<open>requestIdMiddleware\<close> here. Nothing in the handler catches an exception: one thrown
  by the generator or by \<^verbatim>\<open>res.setHeader\<close> leaves it at once.
\<close>

definition requestIdMiddleware ::
    "('g \<Rightarrow> string \<times> 'g) \<Rightarrow> options option \<Rightarrow> 'g world \<Rightarrow> thrown \<times> 'g world + 'g world" where
  "requestIdMiddleware randomUUID opts w =
     (let name = headerNameOf opts;
          echo = setResponseHeaderOf opts
      in case generateId randomUUID opts w of
           Inl failure \<Rightarrow> Inl failure
         | Inr (generatedId, w1) \<Rightarrow>
             (let v = requestIdValue (incomingHeader name (req w1)) generatedId
              in case (if echo then echoHeader name v w1 else Inr w1) of
                   Inl failure \<Rightarrow> Inl failure
                 | Inr w2 \<Rightarrow>
                     (let w3 = w2\<lparr>req := (req w2)\<lparr>requestId := Some v\<rparr>\<rparr>
                      in Inr (w3\<lparr>trace := trace w3 @ [NextCall None]\<rparr>))))"

subsection \<open>Conditions on a run\<close>

text \<open>Whether the configured generator throws on a request.\<close>

definition generatorThrows :: "options option \<Rightarrow> request \<Rightarrow> bool" where
  "generatorThrows opts r =
     (case Option.bind opts generator of
        None \<Rightarrow> False
      | Some gen \<Rightarrow> (case gen r of Inl _ \<Rightarrow> True | Inr _ \<Rightarrow> False))"

text \<open>Whether the run reaches the call of \<^verbatim>\<open>res.setHeader\<close> and the response refuses
  it: echoing is enabled, the generator returned, and the call with the configured name
  and the resolved identifier throws.\<close>

definition echoThrows :: "('g \<Rightarrow> string \<times> 'g) \<Rightarrow> options option \<Rightarrow> 'g world \<Rightarrow> bool" where
  "echoThrows randomUUID opts w =
     (setResponseHeaderOf opts \<and>
      (case generateId randomUUID opts w of
         Inl _ \<Rightarrow> False
       | Inr (generatedId, w1) \<Rightarrow>
           setHeaderThrows (headerNameOf opts)
             (requestIdValue (incomingHeader (headerNameOf opts) (req w1)) generatedId)
             (res w1)))"

text \<open>The generation call line 122 makes in a world: to the configured generator if
  there is one, to \<^verbatim>\<open>randomUUID\<close> otherwise.\<close>

definition generationEvent :: "('g \<Rightarrow> string \<times> 'g) \<Rightarrow> options option \<Rightarrow> 'g world \<Rightarrow> event" where
  "generationEvent randomUUID opts w =
     (case Option.bind opts generator of
        Some gen \<Rightarrow> GeneratorCall (gen (req w))
      | None \<Rightarrow> RandomUUIDCall (fst (randomUUID (entropy w))))"

subsection \<open>Observations\<close>

text \<open>What a caller can see of one run: whether it threw, the world it left, the
  identifier a returning run attached to the request, the header it echoed on the
  response, and the calls recorded in the trace.\<close>

definition thrownBy :: "thrown \<times> 'g world + 'g world \<Rightarrow> thrown option" where
  "thrownBy r = (case r of Inl (e, _) \<Rightarrow> Some e | Inr _ \<Rightarrow> None)"

definition finalWorld :: "thrown \<times> 'g world + 'g world \<Rightarrow> 'g world" where
  "finalWorld r = (case r of Inl (_, w) \<Rightarrow> w | Inr w \<Rightarrow> w)"

definition attachedId :: "thrown \<times> 'g world + 'g world \<Rightarrow> string option" where
  "attachedId r = (case r of Inl _ \<Rightarrow> None | Inr w \<Rightarrow> requestId (req w))"

definition echoedHeader :: "string \<Rightarrow> thrown \<times> 'g world + 'g world \<Rightarrow> string option" where
  "echoedHeader name r = (case r of Inl _ \<Rightarrow> None | Inr w \<Rightarrow> getHeader name (res w))"

definition candidateId :: "thrown \<times> 'g world + string \<times> 'g world \<Rightarrow> string option" where
  "candidateId r = (case r of Inl _ \<Rightarrow> None | Inr (gid, _) \<Rightarrow> Some gid)"

fun setHeaderCalls :: "event list \<Rightarrow> (string \<times> string) list" where
  "setHeaderCalls [] = []"
| "setHeaderCalls (SetHeaderCall name v # es) = (name, v) # setHeaderCalls es"
| "setHeaderCalls (_ # es) = setHeaderCalls es"

fun nextCalls :: "event list \<Rightarrow> thrown option list" where
  "nextCalls [] = []"
| "nextCalls (NextCall err # es) = err # nextCalls es"
| "nextCalls (_ # es) = nextCalls es"

text \<open>The calls that produce a candidate identifier, by either generator, and their
  number.\<close>

fun generationEvents :: "event list \<Rightarrow> event list" where
  "generationEvents [] = []"
| "generationEvents (GeneratorCall r # es) = GeneratorCall r # generationEvents es"
| "generationEvents (RandomUUIDCall u # es) = RandomUUIDCall u # generationEvents es"
| "generationEvents (_ # es) = generationEvents es"

definition generationCalls :: "event list \<Rightarrow> nat" where
  "generationCalls es = length (generationEvents es)"

subsection \<open>Concrete inputs\<close>

text \<open>
  A stand-in for \<^verbatim>\<open>randomUUID\<close> that can be evaluated: the entropy state is a counter,
  and the string drawn is different for each state.
\<close>

definition counterUUID :: "nat \<Rightarrow> string \<times> nat" where
  "counterUUID n = (''uuid-'' @ replicate n (CHR ''i''), Suc n)"

text \<open>A generator that always returns the same string, and one that always throws.\<close>

definition fixedGenerator :: "string \<Rightarrow> request \<Rightarrow> thrown + string" where
  "fixedGenerator s r = Inr s"

definition failingGenerator :: "request \<Rightarrow> thrown + string" where
  "failingGenerator r = Inl (Thrown ''generator failed'')"

text \<open>A fresh request with the given headers, a response with no header set and nothing
  sent, and an empty trace.\<close>

definition requestWith :: "(string \<times> header_value) list \<Rightarrow> nat world" where
  "requestWith hs =
     \<lparr>req = \<lparr>headers = Some (map_of hs), requestId = None\<rparr>,
      res = \<lparr>headersSent = False, outHeaders = Map.empty\<rparr>,
      entropy = 0,
      trace = []\<rparr>"

text \<open>A request whose header collection is \<open>undefined\<close>.\<close>

definition requestWithoutHeaders :: "nat world" where
  "requestWithoutHeaders =
     \<lparr>req = \<lparr>headers = None, requestId = None\<rparr>,
      res = \<lparr>headersSent = False, outHeaders = Map.empty\<rparr>,
      entropy = 0,
      trace = []\<rparr>"

text \<open>A request without headers whose response has been started: its headers are sent.\<close>

definition requestAfterHeadersSent :: "nat world" where
  "requestAfterHeadersSent =
     \<lparr>req = \<lparr>headers = Some Map.empty, requestId = None\<rparr>,
      res = \<lparr>headersSent = True, outHeaders = Map.empty\<rparr>,
      entropy = 0,
      trace = []\<rparr>"

text \<open>A request without headers whose response already holds a header, set earlier
  under the given name.\<close>

definition requestWithResponseHeader :: "string \<Rightarrow> string \<Rightarrow> nat world" where
  "requestWithResponseHeader name v =
     \<lparr>req = \<lparr>headers = Some Map.empty, requestId = None\<rparr>,
      res = \<lparr>headersSent = False, outHeaders = [toLowerCase name \<mapsto> (name, v)]\<rparr>,
      entropy = 0,
      trace = []\<rparr>"

text \<open>The options objects \<^verbatim>\<open>{ headerName }\<close>, \<^verbatim>\<open>{ setResponseHeader }\<close> and
  \<^verbatim>\<open>{ generator }\<close>.\<close>

definition withHeaderName :: "string \<Rightarrow> options option" where
  "withHeaderName name =
     Some \<lparr>generator = None, headerName = Some name, setResponseHeader = None\<rparr>"

definition withEcho :: "bool \<Rightarrow> options option" where
  "withEcho b =
     Some \<lparr>generator = None, headerName = None, setResponseHeader = Some b\<rparr>"

definition withGenerator :: "(request \<Rightarrow> thrown + string) \<Rightarrow> options option" where
  "withGenerator gen =
     Some \<lparr>generator = Some gen, headerName = None, setResponseHeader = None\<rparr>"

lemmas sample_defs =
  counterUUID_def fixedGenerator_def failingGenerator_def requestWith_def
  requestWithoutHeaders_def requestAfterHeadersSent_def requestWithResponseHeader_def
  withHeaderName_def withEcho_def withGenerator_def

lemmas response_defs =
  setHeader_def getHeader_def setHeaderThrows_def checkIsHttpToken_def isTokenChar_def
  checkInvalidHeaderChar_def isHeaderChar_def toLowerCase_def lowerChar_def

lemmas handler_defs =
  requestIdMiddleware_def generateId_def incomingHeader_def requestIdValue_def echoHeader_def
  headerNameOf_def setResponseHeaderOf_def coalesce_def generatorThrows_def echoThrows_def
  attachedId_def echoedHeader_def candidateId_def thrownBy_def finalWorld_def

subsection \<open>Basic facts\<close>

lemma setHeaderCalls_append:
  "setHeaderCalls (xs @ ys) = setHeaderCalls xs @ setHeaderCalls ys"
  by (induction xs rule: setHeaderCalls.induct) simp_all

lemma nextCalls_append: "nextCalls (xs @ ys) = nextCalls xs @ nextCalls ys"
  by (induction xs rule: nextCalls.induct) simp_all

lemma generationEvents_append:
  "generationEvents (xs @ ys) = generationEvents xs @ generationEvents ys"
  by (induction xs rule: generationEvents.induct) simp_all

lemma generationEvents_generationEvent:
  "generationEvents (generationEvent randomUUID opts w # es)
     = generationEvent randomUUID opts w # generationEvents es"
  by (simp add: generationEvent_def split: option.splits)

lemma setHeaderCalls_generationEvent:
  "setHeaderCalls (generationEvent randomUUID opts w # es) = setHeaderCalls es"
  by (simp add: generationEvent_def split: option.splits)

lemma nextCalls_generationEvent:
  "nextCalls (generationEvent randomUUID opts w # es) = nextCalls es"
  by (simp add: generationEvent_def split: option.splits)

lemmas calls_simps =
  setHeaderCalls_append nextCalls_append generationEvents_append generationCalls_def
  generationEvents_generationEvent setHeaderCalls_generationEvent nextCalls_generationEvent

text \<open>What an accepted \<open>setHeader\<close> does to the store, read through \<open>getHeader\<close>:
  every name that differs from the given one only in case now yields the value, every
  other name yields what it did.\<close>

lemma lowerChar_idem: "lowerChar (lowerChar c) = lowerChar c"
  by (auto simp: lowerChar_def split: if_splits)

lemma toLowerCase_idem: "toLowerCase (toLowerCase s) = toLowerCase s"
  by (simp add: toLowerCase_def lowerChar_idem)

lemma setHeader_accepted:
  assumes "\<not> setHeaderThrows name v r"
  shows "setHeader name v r
           = Inr (r\<lparr>outHeaders := (outHeaders r)(toLowerCase name \<mapsto> (name, v))\<rparr>)"
  using assms by (simp add: setHeaderThrows_def setHeader_def split: if_splits)

lemma setHeader_refused:
  assumes "setHeaderThrows name v r"
  shows "\<exists>e. setHeader name v r = Inl e"
  using assms by (simp add: setHeaderThrows_def split: sum.splits)

lemma getHeader_after_store:
  "getHeader other (r\<lparr>outHeaders := (outHeaders r)(toLowerCase name \<mapsto> (name, v))\<rparr>)
     = (if toLowerCase other = toLowerCase name then Some v else getHeader other r)"
  by (simp add: getHeader_def)

text \<open>The call that produces the candidate leaves request and response alone and adds
  one event, the generation call of this world; only \<^verbatim>\<open>randomUUID\<close> draws entropy.\<close>

lemma generateId_frame:
  assumes "generateId randomUUID opts w = Inr (gid, w1)"
  shows "req w1 = req w" and "res w1 = res w"
    and "trace w1 = trace w @ [generationEvent randomUUID opts w]"
    and "entropy w1 = (case Option.bind opts generator of
                         Some _ \<Rightarrow> entropy w | None \<Rightarrow> snd (randomUUID (entropy w)))"
    and "generationEvent randomUUID opts w
           = (case Option.bind opts generator of
                Some _ \<Rightarrow> GeneratorCall (Inr gid) | None \<Rightarrow> RandomUUIDCall gid)"
  using assms
  by (auto simp: generateId_def generationEvent_def Let_def
           split: option.splits sum.splits prod.splits)

lemma generateId_thrown:
  assumes "generateId randomUUID opts w = Inl (e, w1)"
  shows "req w1 = req w" and "res w1 = res w"
    and "trace w1 = trace w @ [generationEvent randomUUID opts w]"
    and "entropy w1 = entropy w"
    and "generatorThrows opts (req w)"
  using assms
  by (auto simp: generateId_def generationEvent_def generatorThrows_def Let_def
           split: option.splits sum.splits prod.splits)

lemma generateId_returns:
  assumes "\<not> generatorThrows opts (req w)"
  shows "\<exists>gid w1. generateId randomUUID opts w = Inr (gid, w1)"
  using assms
  by (auto simp: generateId_def generatorThrows_def Let_def
           split: option.splits sum.splits prod.splits)

lemma generateId_configured:
  assumes "Option.bind opts generator = Some gen" and "gen (req w) = Inr s"
  shows "generateId randomUUID opts w
           = Inr (s, w\<lparr>trace := trace w @ [GeneratorCall (Inr s)]\<rparr>)"
  using assms by (simp add: generateId_def)

lemma echoThrows_iff:
  assumes "generateId randomUUID opts w = Inr (gid, w1)"
  shows "echoThrows randomUUID opts w
           \<longleftrightarrow> setResponseHeaderOf opts
               \<and> setHeaderThrows (headerNameOf opts)
                   (requestIdValue (incomingHeader (headerNameOf opts) (req w)) gid) (res w)"
  using assms generateId_frame(1,2) [OF assms] by (simp add: echoThrows_def)

text \<open>If the generator throws, so does the handler, at once: nothing is attached, no
  header is set and the continuation is not reached.\<close>

lemma middleware_generator_throws:
  assumes "generateId randomUUID opts w = Inl (e, w1)"
  shows "requestIdMiddleware randomUUID opts w = Inl (e, w1)"
  using assms by (simp add: requestIdMiddleware_def Let_def)

lemma throwing_generator_propagates:
  "thrownBy (requestIdMiddleware counterUUID (withGenerator failingGenerator)
               (requestWith [(''x-request-id'', Single ''abc-123'')]))
     = Some (Thrown ''generator failed'')"
  by (simp add: requestIdMiddleware_def generateId_def withGenerator_def failingGenerator_def
                thrownBy_def Let_def)

text \<open>If the generator returns and the response refuses the echo, the handler throws
  what \<open>setHeader\<close> threw, after the call and before the attach and the continuation.\<close>

lemma middleware_echo_throws:
  assumes gen: "generateId randomUUID opts w = Inr (gid, w1)"
    and v: "v = requestIdValue (incomingHeader (headerNameOf opts) (req w)) gid"
    and echo: "setResponseHeaderOf opts"
    and refused: "setHeader (headerNameOf opts) v (res w) = Inl e"
  shows "requestIdMiddleware randomUUID opts w
           = Inl (e, w1\<lparr>trace := trace w1 @ [SetHeaderCall (headerNameOf opts) v]\<rparr>)"
  using gen echo refused generateId_frame(1,2) [OF gen]
  by (simp add: requestIdMiddleware_def echoHeader_def Let_def v)

text \<open>The whole effect of a run in which neither call throws: the identifier resolved
  from the lookup and the candidate is attached to the request, echoed if enabled, and
  the trace grows by the generation call, the echo if any, and the continuation.\<close>

lemma middleware_result:
  assumes gen: "generateId randomUUID opts w = Inr (gid, w1)"
    and v: "v = requestIdValue (incomingHeader (headerNameOf opts) (req w)) gid"
    and acc: "\<not> echoThrows randomUUID opts w"
  obtains w' where "requestIdMiddleware randomUUID opts w = Inr w'"
    and "requestId (req w') = Some v"
    and "headers (req w') = headers (req w)"
    and "res w' = (if setResponseHeaderOf opts
                   then (res w)\<lparr>outHeaders :=
                          (outHeaders (res w))(toLowerCase (headerNameOf opts)
                                                 \<mapsto> (headerNameOf opts, v))\<rparr>
                   else res w)"
    and "trace w' = trace w
           @ [generationEvent randomUUID opts w]
           @ (if setResponseHeaderOf opts then [SetHeaderCall (headerNameOf opts) v] else [])
           @ [NextCall None]"
    and "entropy w' = entropy w1"
proof -
  let ?name = "headerNameOf opts"
  let ?store = "(res w)\<lparr>outHeaders := (outHeaders (res w))(toLowerCase ?name \<mapsto> (?name, v))\<rparr>"
  let ?w2 = "if setResponseHeaderOf opts
             then w1\<lparr>trace := trace w1 @ [SetHeaderCall ?name v], res := ?store\<rparr>
             else w1"
  let ?w' = "?w2\<lparr>req := (req w)\<lparr>requestId := Some v\<rparr>,
                  trace := trace ?w2 @ [NextCall None]\<rparr>"
  note frame = generateId_frame [OF gen]
  have accepted: "setHeader ?name v (res w) = Inr ?store" if "setResponseHeaderOf opts"
    using that acc echoThrows_iff [OF gen] v by (simp add: setHeader_accepted)
  have "requestIdMiddleware randomUUID opts w = Inr ?w'"
    using gen frame(1,2) accepted
    by (simp add: requestIdMiddleware_def echoHeader_def Let_def v)
  moreover have "requestId (req ?w') = Some v" and "headers (req ?w') = headers (req w)"
    by simp_all
  moreover have "res ?w' = (if setResponseHeaderOf opts then ?store else res w)"
    using frame(2) by simp
  moreover have "trace ?w' = trace w
           @ [generationEvent randomUUID opts w]
           @ (if setResponseHeaderOf opts then [SetHeaderCall ?name v] else [])
           @ [NextCall None]"
    using frame(3) by simp
  moreover have "entropy ?w' = entropy w1"
    by simp
  ultimately show thesis by (rule that)
qed

lemma generateId_returned:
  assumes "generateId randomUUID opts w = Inr (gid, w1)"
  shows "\<not> generatorThrows opts (req w)"
  using assms
  by (auto simp: generateId_def generatorThrows_def Let_def
           split: option.splits sum.splits prod.splits)

text \<open>The three ways a run can go: the generator throws; the generator returns and the
  response refuses the echo; neither throws.\<close>

lemma middleware_cases:
  obtains (generator_throws) e w1 where
      "generateId randomUUID opts w = Inl (e, w1)"
      "requestIdMiddleware randomUUID opts w = Inl (e, w1)"
      "generatorThrows opts (req w)"
      "\<not> echoThrows randomUUID opts w"
  | (echo_throws) gid w1 e where
      "generateId randomUUID opts w = Inr (gid, w1)"
      "requestIdMiddleware randomUUID opts w
         = Inl (e, w1\<lparr>trace := trace w1
                  @ [SetHeaderCall (headerNameOf opts)
                       (requestIdValue (incomingHeader (headerNameOf opts) (req w)) gid)]\<rparr>)"
      "\<not> generatorThrows opts (req w)"
      "echoThrows randomUUID opts w"
      "setResponseHeaderOf opts"
  | (returns) gid w1 where
      "generateId randomUUID opts w = Inr (gid, w1)"
      "\<not> generatorThrows opts (req w)"
      "\<not> echoThrows randomUUID opts w"
proof (cases "generateId randomUUID opts w")
  case (Inl failure)
  obtain e w1 where "failure = (e, w1)" by (cases failure)
  with Inl have gen: "generateId randomUUID opts w = Inl (e, w1)" by simp
  moreover have "\<not> echoThrows randomUUID opts w"
    using gen by (simp add: echoThrows_def)
  ultimately show thesis
    using middleware_generator_throws [OF gen] generateId_thrown(5) [OF gen]
    by (intro generator_throws)
next
  case (Inr success)
  obtain gid w1 where "success = (gid, w1)" by (cases success)
  with Inr have gen: "generateId randomUUID opts w = Inr (gid, w1)" by simp
  note ok = generateId_returned [OF gen]
  show thesis
  proof (cases "echoThrows randomUUID opts w")
    case True
    then have echo: "setResponseHeaderOf opts"
      and "setHeaderThrows (headerNameOf opts)
             (requestIdValue (incomingHeader (headerNameOf opts) (req w)) gid) (res w)"
      using echoThrows_iff [OF gen] by simp_all
    from setHeader_refused [OF this(2)] obtain e
      where "setHeader (headerNameOf opts)
               (requestIdValue (incomingHeader (headerNameOf opts) (req w)) gid) (res w) = Inl e"
      by blast
    from middleware_echo_throws [OF gen refl echo this] gen ok True echo
    show thesis by (intro echo_throws)
  next
    case False
    with gen ok show thesis by (intro returns)
  qed
qed

subsection \<open>Header precedence\<close>

text \<open>
  Claim C1. When the request carries a non-empty value under the configured header name,
  the handler attaches that value as \<open>req.requestId\<close>: the value itself when the header
  is a single string, the first element when it is a list. The candidate identifier
  plays no part: whatever it is, the resolved identifier is the header's value. (The
  generator is called first and the echo precedes the attach, so the statement is for a
  run in which neither of the two calls throws.)
\<close>

theorem header_precedence:
  assumes "\<not> generatorThrows opts (req w)"
    and "\<not> echoThrows randomUUID opts w"
    and "incomingHeader (headerNameOf opts) (req w) = Some hv"
    and "hv = Single v \<or> hv = Multiple (v # vs)"
    and "v \<noteq> []"
  shows "\<exists>w'. requestIdMiddleware randomUUID opts w = Inr w'
              \<and> requestId (req w') = Some v
              \<and> requestIdValue (Some hv) anyId = v"
proof -
  from generateId_returns [OF assms(1)] obtain gid w1
    where gen: "generateId randomUUID opts w = Inr (gid, w1)" by blast
  have pick: "requestIdValue (Some hv) g = v" for g
    using assms(4) by (auto simp: requestIdValue_def coalesce_def)
  from middleware_result [OF gen refl assms(2)] obtain w'
    where "requestIdMiddleware randomUUID opts w = Inr w'"
      and "requestId (req w')
             = Some (requestIdValue (incomingHeader (headerNameOf opts) (req w)) gid)"
    by blast
  with assms(3) pick show ?thesis by simp
qed

theorem header_precedence_witness:
  "(\<not> generatorThrows None (req (requestWith [(''x-request-id'', Single ''abc-123'')]))
    \<and> \<not> echoThrows counterUUID None (requestWith [(''x-request-id'', Single ''abc-123'')])
    \<and> incomingHeader (headerNameOf None)
         (req (requestWith [(''x-request-id'', Single ''abc-123'')]))
        = Some (Single ''abc-123'')
    \<and> ''abc-123'' \<noteq> []
    \<and> attachedId (requestIdMiddleware counterUUID None
                     (requestWith [(''x-request-id'', Single ''abc-123'')]))
        = Some ''abc-123'')
   \<and> (\<not> generatorThrows None
           (req (requestWith [(''x-request-id'', Multiple [''id-1'', ''id-2''])]))
    \<and> \<not> echoThrows counterUUID None
           (requestWith [(''x-request-id'', Multiple [''id-1'', ''id-2''])])
    \<and> incomingHeader (headerNameOf None)
         (req (requestWith [(''x-request-id'', Multiple [''id-1'', ''id-2''])]))
        = Some (Multiple [''id-1'', ''id-2''])
    \<and> ''id-1'' \<noteq> []
    \<and> attachedId (requestIdMiddleware counterUUID None
                     (requestWith [(''x-request-id'', Multiple [''id-1'', ''id-2''])]))
        = Some ''id-1'')"
proof -
  let ?a = "requestWith [(''x-request-id'', Single ''abc-123'')]"
  let ?b = "requestWith [(''x-request-id'', Multiple [''id-1'', ''id-2''])]"
  have ga: "\<not> generatorThrows None (req ?a)" and gb: "\<not> generatorThrows None (req ?b)"
    by (simp_all add: generatorThrows_def)
  have ea: "\<not> echoThrows counterUUID None ?a" and eb: "\<not> echoThrows counterUUID None ?b"
    by (simp_all add: handler_defs response_defs sample_defs Let_def)
  have ha: "incomingHeader (headerNameOf None) (req ?a) = Some (Single ''abc-123'')"
    and hb: "incomingHeader (headerNameOf None) (req ?b) = Some (Multiple [''id-1'', ''id-2''])"
    by (simp_all add: incomingHeader_def headerNameOf_def coalesce_def requestWith_def)
  have na: "''abc-123'' \<noteq> []" and nb: "''id-1'' \<noteq> []"
    by simp_all
  from header_precedence [OF ga ea ha _ na, where vs = "[]" and anyId = "[]"]
  have a: "attachedId (requestIdMiddleware counterUUID None ?a) = Some ''abc-123''"
    by (auto simp: attachedId_def)
  from header_precedence [OF gb eb hb _ nb, where vs = "[''id-2'']" and anyId = "[]"]
  have b: "attachedId (requestIdMiddleware counterUUID None ?b) = Some ''id-1''"
    by (auto simp: attachedId_def)
  from ga ea ha na a gb eb hb nb b show ?thesis by blast
qed

subsection \<open>An empty incoming value\<close>

text \<open>
  Claim C2, as stated, fails. The claim says that an empty incoming value (an empty
  single string, or a list whose first element is empty) is replaced by the candidate
  identifier. The handler tests the lookup with \<^verbatim>\<open>??\<close>, which replaces only
  \<open>undefined\<close> and \<open>null\<close>: for the header \<^verbatim>\<open>x-request-id: ""\<close> the attached
  identifier is the empty string, although the candidate \<open>uuid-\<close> was drawn; the same
  for the list \<^verbatim>\<open>["", "id-2"]\<close>.
\<close>

theorem empty_header_fallback_counterexample:
  "attachedId (requestIdMiddleware counterUUID None
                 (requestWith [(''x-request-id'', Single [])])) = Some []
   \<and> candidateId (generateId counterUUID None
                    (requestWith [(''x-request-id'', Single [])])) = Some ''uuid-''
   \<and> attachedId (requestIdMiddleware counterUUID None
                   (requestWith [(''x-request-id'', Multiple [[], ''id-2''])])) = Some []"
  by (simp add: handler_defs response_defs sample_defs Let_def)

text \<open>
  Claim C2, amended. An empty string found under the configured header name, as a single
  value or as the first element of a list, is attached unchanged: \<open>req.requestId\<close> is
  then the empty string. The handler falls back to the candidate identifier when the
  lookup finds nothing: the header is absent, or it is an empty list.
\<close>

theorem empty_header_kept:
  assumes "\<not> generatorThrows opts (req w)"
    and "\<not> echoThrows randomUUID opts w"
    and "incomingHeader (headerNameOf opts) (req w) = hv"
  shows "\<exists>w' gid w1.
           generateId randomUUID opts w = Inr (gid, w1)
         \<and> requestIdMiddleware randomUUID opts w = Inr w'
         \<and> (hv = Some (Single []) \<or> (\<exists>vs. hv = Some (Multiple ([] # vs)))
              \<longrightarrow> requestId (req w') = Some [])
         \<and> (hv = None \<or> hv = Some (Multiple [])
              \<longrightarrow> requestId (req w') = Some gid)"
proof -
  from generateId_returns [OF assms(1)] obtain gid w1
    where gen: "generateId randomUUID opts w = Inr (gid, w1)" by blast
  from middleware_result [OF gen refl assms(2)] obtain w'
    where run: "requestIdMiddleware randomUUID opts w = Inr w'"
      and att: "requestId (req w') = Some (requestIdValue hv gid)"
    unfolding assms(3) by blast
  have "requestIdValue (Some (Single [])) gid = []"
    and "requestIdValue (Some (Multiple ([] # vs))) gid = []"
    and "requestIdValue None gid = gid"
    and "requestIdValue (Some (Multiple [])) gid = gid" for vs
    by (simp_all add: requestIdValue_def coalesce_def)
  with gen run att show ?thesis by auto
qed

theorem empty_header_kept_witness:
  "(\<not> generatorThrows None (req (requestWith [(''x-request-id'', Single [])]))
    \<and> \<not> echoThrows counterUUID None (requestWith [(''x-request-id'', Single [])])
    \<and> incomingHeader (headerNameOf None) (req (requestWith [(''x-request-id'', Single [])]))
        = Some (Single [])
    \<and> attachedId (requestIdMiddleware counterUUID None
                     (requestWith [(''x-request-id'', Single [])])) = Some [])
   \<and> (\<not> generatorThrows None (req (requestWith []))
    \<and> \<not> echoThrows counterUUID None (requestWith [])
    \<and> incomingHeader (headerNameOf None) (req (requestWith [])) = None
    \<and> candidateId (generateId counterUUID None (requestWith [])) = Some ''uuid-''
    \<and> attachedId (requestIdMiddleware counterUUID None (requestWith [])) = Some ''uuid-'')"
proof -
  let ?a = "requestWith [(''x-request-id'', Single [])]"
  let ?b = "requestWith []"
  have ga: "\<not> generatorThrows None (req ?a)" and gb: "\<not> generatorThrows None (req ?b)"
    by (simp_all add: generatorThrows_def)
  have ea: "\<not> echoThrows counterUUID None ?a" and eb: "\<not> echoThrows counterUUID None ?b"
    by (simp_all add: handler_defs response_defs sample_defs Let_def)
  have ha: "incomingHeader (headerNameOf None) (req ?a) = Some (Single [])"
    and hb: "incomingHeader (headerNameOf None) (req ?b) = None"
    by (simp_all add: incomingHeader_def headerNameOf_def coalesce_def requestWith_def)
  have cb: "candidateId (generateId counterUUID None ?b) = Some ''uuid-''"
    by (simp add: candidateId_def generateId_def counterUUID_def requestWith_def)
  from empty_header_kept [OF ga ea ha]
  have a: "attachedId (requestIdMiddleware counterUUID None ?a) = Some []"
    by (auto simp: attachedId_def)
  from empty_header_kept [OF gb eb hb] cb
  have b: "attachedId (requestIdMiddleware counterUUID None ?b) = Some ''uuid-''"
    by (auto simp: attachedId_def candidateId_def)
  from ga ea ha a gb eb hb cb b show ?thesis by blast
qed

subsection \<open>The header name is looked up as it is configured\<close>

text \<open>
  Claim C3 says that the lookup of the incoming identifier is case-insensitive. The
  handler reads \<^verbatim>\<open>req.headers?.[headerName]\<close> with the configured name unchanged, and
  a property lookup compares keys exactly. Configured with \<^verbatim>\<open>"X-Correlation-Id"\<close>, as
  in the example of the function's own documentation, and given the header stored as
  \<^verbatim>\<open>x-correlation-id\<close> (Node stores incoming header names in lower case), the
  handler does not find \<open>abc-123\<close> and attaches the candidate \<open>uuid-\<close>; configured with
  the lower-case name it attaches \<open>abc-123\<close>.
\<close>

theorem header_lookup_exact_match:
  "attachedId (requestIdMiddleware counterUUID (withHeaderName ''X-Correlation-Id'')
                 (requestWith [(''x-correlation-id'', Single ''abc-123'')])) = Some ''uuid-''
   \<and> attachedId (requestIdMiddleware counterUUID (withHeaderName ''x-correlation-id'')
                   (requestWith [(''x-correlation-id'', Single ''abc-123'')])) = Some ''abc-123''"
  by (simp add: handler_defs response_defs sample_defs Let_def)

subsection \<open>The candidate is computed on every request\<close>

text \<open>
  Claim C4. Every run computes the candidate identifier, whatever the request's headers
  are and however the run ends. With a generator configured, the run makes exactly one
  generation call, it is the generator applied to the request, no entropy is drawn, and
  what the generator returns is the candidate. With none configured, the one generation
  call is \<^verbatim>\<open>randomUUID\<close>, one string is drawn from the entropy, and that string is the
  candidate. The candidate is the identifier attached when the lookup finds nothing and
  the run returns.
\<close>

theorem generator_called_once:
  "generationCalls (trace (finalWorld (requestIdMiddleware randomUUID opts w)))
     = Suc (generationCalls (trace w))
   \<and> (case Option.bind opts generator of
        Some gen \<Rightarrow>
          generationEvents (trace (finalWorld (requestIdMiddleware randomUUID opts w)))
            = generationEvents (trace w) @ [GeneratorCall (gen (req w))]
          \<and> entropy (finalWorld (requestIdMiddleware randomUUID opts w)) = entropy w
          \<and> candidateId (generateId randomUUID opts w)
              = (case gen (req w) of Inl _ \<Rightarrow> None | Inr s \<Rightarrow> Some s)
      | None \<Rightarrow>
          generationEvents (trace (finalWorld (requestIdMiddleware randomUUID opts w)))
            = generationEvents (trace w) @ [RandomUUIDCall (fst (randomUUID (entropy w)))]
          \<and> entropy (finalWorld (requestIdMiddleware randomUUID opts w))
              = snd (randomUUID (entropy w))
          \<and> candidateId (generateId randomUUID opts w)
              = Some (fst (randomUUID (entropy w))))
   \<and> (incomingHeader (headerNameOf opts) (req w) = None
        \<and> thrownBy (requestIdMiddleware randomUUID opts w) = None
      \<longrightarrow> attachedId (requestIdMiddleware randomUUID opts w)
            = candidateId (generateId randomUUID opts w))"
proof -
  let ?run = "requestIdMiddleware randomUUID opts w"
  have candidate: "candidateId (generateId randomUUID opts w)
      = (case Option.bind opts generator of
           Some gen \<Rightarrow> (case gen (req w) of Inl _ \<Rightarrow> None | Inr s \<Rightarrow> Some s)
         | None \<Rightarrow> Some (fst (randomUUID (entropy w))))"
    by (simp add: candidateId_def generateId_def Let_def
             split: option.splits sum.splits prod.splits)
  have events: "generationEvents (trace (finalWorld ?run))
      = generationEvents (trace w) @ [generationEvent randomUUID opts w]"
    and drawn: "entropy (finalWorld ?run)
      = (case Option.bind opts generator of
           Some _ \<Rightarrow> entropy w | None \<Rightarrow> snd (randomUUID (entropy w)))"
    and attached: "incomingHeader (headerNameOf opts) (req w) = None \<Longrightarrow> thrownBy ?run = None
      \<Longrightarrow> attachedId ?run = candidateId (generateId randomUUID opts w)"
  proof (atomize (full), cases rule: middleware_cases [of randomUUID opts w])
    case (generator_throws e w1)
    from generateId_thrown [OF generator_throws(1)] generator_throws(2,3)
    show "generationEvents (trace (finalWorld ?run))
            = generationEvents (trace w) @ [generationEvent randomUUID opts w]
          \<and> entropy (finalWorld ?run)
            = (case Option.bind opts generator of
                 Some _ \<Rightarrow> entropy w | None \<Rightarrow> snd (randomUUID (entropy w)))
          \<and> (incomingHeader (headerNameOf opts) (req w) = None \<longrightarrow> thrownBy ?run = None
             \<longrightarrow> attachedId ?run = candidateId (generateId randomUUID opts w))"
      by (auto simp: finalWorld_def thrownBy_def calls_simps generatorThrows_def
               split: option.splits)
  next
    case (echo_throws gid w1 e)
    from generateId_frame(1-4) [OF echo_throws(1)] echo_throws(2)
    show "generationEvents (trace (finalWorld ?run))
            = generationEvents (trace w) @ [generationEvent randomUUID opts w]
          \<and> entropy (finalWorld ?run)
            = (case Option.bind opts generator of
                 Some _ \<Rightarrow> entropy w | None \<Rightarrow> snd (randomUUID (entropy w)))
          \<and> (incomingHeader (headerNameOf opts) (req w) = None \<longrightarrow> thrownBy ?run = None
             \<longrightarrow> attachedId ?run = candidateId (generateId randomUUID opts w))"
      by (simp add: finalWorld_def thrownBy_def calls_simps)
  next
    case (returns gid w1)
    from middleware_result [OF returns(1) refl returns(3)] obtain w'
      where run: "?run = Inr w'"
        and att: "requestId (req w')
                    = Some (requestIdValue (incomingHeader (headerNameOf opts) (req w)) gid)"
        and tr: "trace w' = trace w
             @ [generationEvent randomUUID opts w]
             @ (if setResponseHeaderOf opts
                then [SetHeaderCall (headerNameOf opts)
                        (requestIdValue (incomingHeader (headerNameOf opts) (req w)) gid)]
                else [])
             @ [NextCall None]"
        and ent: "entropy w' = entropy w1"
      by blast
    have "requestIdValue None gid = gid"
      by (simp add: requestIdValue_def coalesce_def)
    with run att tr ent generateId_frame(4) [OF returns(1)] returns(1)
    show "generationEvents (trace (finalWorld ?run))
            = generationEvents (trace w) @ [generationEvent randomUUID opts w]
          \<and> entropy (finalWorld ?run)
            = (case Option.bind opts generator of
                 Some _ \<Rightarrow> entropy w | None \<Rightarrow> snd (randomUUID (entropy w)))
          \<and> (incomingHeader (headerNameOf opts) (req w) = None \<longrightarrow> thrownBy ?run = None
             \<longrightarrow> attachedId ?run = candidateId (generateId randomUUID opts w))"
      by (simp add: finalWorld_def attachedId_def candidateId_def calls_simps)
  qed
  from events have count: "generationCalls (trace (finalWorld ?run))
      = Suc (generationCalls (trace w))"
    by (simp add: generationCalls_def)
  show ?thesis
  proof (cases "Option.bind opts generator")
    case None
    with events drawn candidate attached count show ?thesis
      by (simp add: generationEvent_def)
  next
    case (Some gen)
    with events drawn candidate attached count show ?thesis
      by (simp add: generationEvent_def)
  qed
qed

theorem generator_called_once_witness:
  "(incomingHeader (headerNameOf None) (req (requestWith [])) = None
    \<and> thrownBy (requestIdMiddleware counterUUID None (requestWith [])) = None
    \<and> generationEvents (trace (finalWorld (requestIdMiddleware counterUUID None
                                               (requestWith []))))
        = [RandomUUIDCall ''uuid-'']
    \<and> entropy (finalWorld (requestIdMiddleware counterUUID None (requestWith []))) = 1
    \<and> attachedId (requestIdMiddleware counterUUID None (requestWith [])) = Some ''uuid-'')
   \<and> (generationEvents
        (trace (finalWorld (requestIdMiddleware counterUUID
                              (withGenerator (fixedGenerator ''fixed-id''))
                              (requestWith [(''x-request-id'', Single ''abc-123'')]))))
        = [GeneratorCall (Inr ''fixed-id'')]
    \<and> attachedId (requestIdMiddleware counterUUID
                     (withGenerator (fixedGenerator ''fixed-id''))
                     (requestWith [(''x-request-id'', Single ''abc-123'')]))
        = Some ''abc-123'')"
proof -
  let ?o = "withGenerator (fixedGenerator ''fixed-id'')"
  let ?a = "requestWith []"
  let ?b = "requestWith [(''x-request-id'', Single ''abc-123'')]"
  have h: "incomingHeader (headerNameOf None) (req ?a) = None"
    by (simp add: incomingHeader_def headerNameOf_def coalesce_def requestWith_def)
  have t: "thrownBy (requestIdMiddleware counterUUID None ?a) = None"
    by (simp add: handler_defs response_defs sample_defs Let_def)
  have ca: "Option.bind None generator = None"
    and ua: "counterUUID (entropy ?a) = (''uuid-'', 1)" and ta: "trace ?a = []"
    by (simp_all add: counterUUID_def requestWith_def)
  have cb: "Option.bind ?o generator = Some (fixedGenerator ''fixed-id'')"
    and gb: "fixedGenerator ''fixed-id'' (req ?b) = Inr ''fixed-id''" and tb: "trace ?b = []"
    by (simp_all add: withGenerator_def fixedGenerator_def requestWith_def)
  have kept: "attachedId (requestIdMiddleware counterUUID ?o ?b) = Some ''abc-123''"
    by (simp add: handler_defs response_defs sample_defs Let_def)
  from generator_called_once [of counterUUID None ?a] h t ca ua ta
  have a: "generationEvents (trace (finalWorld (requestIdMiddleware counterUUID None ?a)))
             = [RandomUUIDCall ''uuid-'']
           \<and> entropy (finalWorld (requestIdMiddleware counterUUID None ?a)) = 1
           \<and> attachedId (requestIdMiddleware counterUUID None ?a) = Some ''uuid-''"
    by simp
  from generator_called_once [of counterUUID ?o ?b] cb gb tb
  have b: "generationEvents (trace (finalWorld (requestIdMiddleware counterUUID ?o ?b)))
             = [GeneratorCall (Inr ''fixed-id'')]"
    by simp
  from h t a b kept show ?thesis by blast
qed

subsection \<open>The echo on the response\<close>

text \<open>
  Claim C5, as stated, fails. The claim says that with \<open>setResponseHeader\<close> enabled the
  response header under the configured name is set to the resolved identifier. The
  handler calls \<^verbatim>\<open>res.setHeader\<close> unguarded, and the response may refuse: on a
  response whose headers are already sent, with the default options and a generator
  that does not throw, the call throws, no header is stored under \<open>x-request-id\<close>, and
  the handler is left before it attaches the identifier.
\<close>

theorem echo_enabled_not_written_counterexample:
  "setResponseHeaderOf None
   \<and> \<not> generatorThrows None (req requestAfterHeadersSent)
   \<and> thrownBy (requestIdMiddleware counterUUID None requestAfterHeadersSent)
       = Some (Thrown ''ERR_HTTP_HEADERS_SENT'')
   \<and> getHeader ''x-request-id''
        (res (finalWorld (requestIdMiddleware counterUUID None requestAfterHeadersSent)))
       = None
   \<and> requestId (req (finalWorld (requestIdMiddleware counterUUID None
                                    requestAfterHeadersSent)))
       = None"
  by (simp add: handler_defs response_defs sample_defs Let_def)

text \<open>
  Claim C5, amended. In a run whose generator returns, \<^verbatim>\<open>res.setHeader\<close> is called,
  once, with the configured name and the resolved identifier if and only if
  \<open>setResponseHeader\<close> is enabled. Enabled, and
  the response accepts the call: the handler returns, the identifier is attached as
  \<open>req.requestId\<close>, and the response holds it under the configured name in any
  capitalisation, whatever was held there before; every other header is as it was.
  Enabled, and the response refuses the call: the handler throws, and response and
  request are as they were. Disabled: the handler returns, the response is unchanged
  and the identifier is attached.
\<close>

theorem response_header_iff_enabled:
  assumes "\<not> generatorThrows opts (req w)"
  shows "headerNameOf opts
           = (case Option.bind opts headerName of Some name \<Rightarrow> name | None \<Rightarrow> ''x-request-id'')
       \<and> setResponseHeaderOf opts
           = (case Option.bind opts setResponseHeader of Some b \<Rightarrow> b | None \<Rightarrow> True)
       \<and> (\<exists>v final. final = finalWorld (requestIdMiddleware randomUUID opts w)
           \<and> setHeaderCalls (trace final)
               = setHeaderCalls (trace w)
                 @ (if setResponseHeaderOf opts then [(headerNameOf opts, v)] else [])
           \<and> (setResponseHeaderOf opts \<and> \<not> echoThrows randomUUID opts w \<longrightarrow>
                 thrownBy (requestIdMiddleware randomUUID opts w) = None
               \<and> requestId (req final) = Some v
               \<and> (\<forall>other. getHeader other (res final)
                     = (if toLowerCase other = toLowerCase (headerNameOf opts)
                        then Some v else getHeader other (res w))))
           \<and> (setResponseHeaderOf opts \<and> echoThrows randomUUID opts w \<longrightarrow>
                 thrownBy (requestIdMiddleware randomUUID opts w) \<noteq> None
               \<and> res final = res w
               \<and> req final = req w)
           \<and> (\<not> setResponseHeaderOf opts \<longrightarrow>
                 thrownBy (requestIdMiddleware randomUUID opts w) = None
               \<and> requestId (req final) = Some v
               \<and> res final = res w))"
proof -
  have configured: "headerNameOf opts
        = (case Option.bind opts headerName of Some name \<Rightarrow> name | None \<Rightarrow> ''x-request-id'')"
      "setResponseHeaderOf opts
        = (case Option.bind opts setResponseHeader of Some b \<Rightarrow> b | None \<Rightarrow> True)"
    by (simp_all add: headerNameOf_def setResponseHeaderOf_def coalesce_def
                 split: option.splits)
  have "\<exists>v final. final = finalWorld (requestIdMiddleware randomUUID opts w)
           \<and> setHeaderCalls (trace final)
               = setHeaderCalls (trace w)
                 @ (if setResponseHeaderOf opts then [(headerNameOf opts, v)] else [])
           \<and> (setResponseHeaderOf opts \<and> \<not> echoThrows randomUUID opts w \<longrightarrow>
                 thrownBy (requestIdMiddleware randomUUID opts w) = None
               \<and> requestId (req final) = Some v
               \<and> (\<forall>other. getHeader other (res final)
                     = (if toLowerCase other = toLowerCase (headerNameOf opts)
                        then Some v else getHeader other (res w))))
           \<and> (setResponseHeaderOf opts \<and> echoThrows randomUUID opts w \<longrightarrow>
                 thrownBy (requestIdMiddleware randomUUID opts w) \<noteq> None
               \<and> res final = res w
               \<and> req final = req w)
           \<and> (\<not> setResponseHeaderOf opts \<longrightarrow>
                 thrownBy (requestIdMiddleware randomUUID opts w) = None
               \<and> requestId (req final) = Some v
               \<and> res final = res w)"
  proof (cases rule: middleware_cases [of randomUUID opts w])
    case (generator_throws e w1)
    with assms show ?thesis by simp
  next
    case (echo_throws gid w1 e)
    let ?v = "requestIdValue (incomingHeader (headerNameOf opts) (req w)) gid"
    from generateId_frame(1-3) [OF echo_throws(1)] echo_throws(2)
    have "setHeaderCalls (trace (finalWorld (requestIdMiddleware randomUUID opts w)))
            = setHeaderCalls (trace w) @ [(headerNameOf opts, ?v)]"
      and "thrownBy (requestIdMiddleware randomUUID opts w) \<noteq> None"
      and "res (finalWorld (requestIdMiddleware randomUUID opts w)) = res w"
      and "req (finalWorld (requestIdMiddleware randomUUID opts w)) = req w"
      by (simp_all add: finalWorld_def thrownBy_def calls_simps)
    with echo_throws(4,5) show ?thesis by auto
  next
    case (returns gid w1)
    define v where "v = requestIdValue (incomingHeader (headerNameOf opts) (req w)) gid"
    from middleware_result [OF returns(1) v_def returns(3)] obtain w'
      where run: "requestIdMiddleware randomUUID opts w = Inr w'"
        and att: "requestId (req w') = Some v"
        and out: "res w' = (if setResponseHeaderOf opts
                            then (res w)\<lparr>outHeaders :=
                                   (outHeaders (res w))(toLowerCase (headerNameOf opts)
                                                          \<mapsto> (headerNameOf opts, v))\<rparr>
                            else res w)"
        and tr: "trace w' = trace w
             @ [generationEvent randomUUID opts w]
             @ (if setResponseHeaderOf opts then [SetHeaderCall (headerNameOf opts) v] else [])
             @ [NextCall None]"
      by blast
    have final: "finalWorld (requestIdMiddleware randomUUID opts w) = w'"
      and ok: "thrownBy (requestIdMiddleware randomUUID opts w) = None"
      using run by (simp_all add: finalWorld_def thrownBy_def)
    have calls: "setHeaderCalls (trace w')
        = setHeaderCalls (trace w)
          @ (if setResponseHeaderOf opts then [(headerNameOf opts, v)] else [])"
      unfolding tr by (simp add: calls_simps)
    have store: "getHeader other (res w')
        = (if toLowerCase other = toLowerCase (headerNameOf opts)
           then Some v else getHeader other (res w))"
      if "setResponseHeaderOf opts" for other
      using that out by (simp add: getHeader_after_store)
    have same: "res w' = res w" if "\<not> setResponseHeaderOf opts"
      using that out by simp
    from final ok calls att store same returns(3) show ?thesis by auto
  qed
  with configured show ?thesis by blast
qed

theorem response_header_iff_enabled_witness:
  "(\<not> generatorThrows (withHeaderName ''X-Request-Id'')
         (req (requestWithResponseHeader ''x-request-id'' ''stale''))
    \<and> setResponseHeaderOf (withHeaderName ''X-Request-Id'')
    \<and> \<not> echoThrows counterUUID (withHeaderName ''X-Request-Id'')
           (requestWithResponseHeader ''x-request-id'' ''stale'')
    \<and> getHeader ''x-request-id'' (res (requestWithResponseHeader ''x-request-id'' ''stale''))
        = Some ''stale''
    \<and> echoedHeader ''x-request-id''
         (requestIdMiddleware counterUUID (withHeaderName ''X-Request-Id'')
            (requestWithResponseHeader ''x-request-id'' ''stale''))
        = Some ''uuid-''
    \<and> attachedId
         (requestIdMiddleware counterUUID (withHeaderName ''X-Request-Id'')
            (requestWithResponseHeader ''x-request-id'' ''stale''))
        = Some ''uuid-'')
   \<and> (\<not> generatorThrows None (req requestAfterHeadersSent)
    \<and> setResponseHeaderOf None
    \<and> echoThrows counterUUID None requestAfterHeadersSent
    \<and> thrownBy (requestIdMiddleware counterUUID None requestAfterHeadersSent) \<noteq> None
    \<and> res (finalWorld (requestIdMiddleware counterUUID None requestAfterHeadersSent))
        = res requestAfterHeadersSent)
   \<and> (\<not> generatorThrows (withEcho False) (req (requestWith []))
    \<and> \<not> setResponseHeaderOf (withEcho False)
    \<and> echoedHeader ''x-request-id''
         (requestIdMiddleware counterUUID (withEcho False) (requestWith [])) = None
    \<and> attachedId (requestIdMiddleware counterUUID (withEcho False) (requestWith []))
        \<noteq> None)"
proof -
  let ?oa = "withHeaderName ''X-Request-Id''"
  let ?a = "requestWithResponseHeader ''x-request-id'' ''stale''"
  let ?b = "requestAfterHeadersSent"
  let ?oc = "withEcho False"
  let ?c = "requestWith []"
  have ga: "\<not> generatorThrows ?oa (req ?a)" and gb: "\<not> generatorThrows None (req ?b)"
    and gc: "\<not> generatorThrows ?oc (req ?c)"
    by (simp_all add: generatorThrows_def withHeaderName_def withEcho_def)
  have sa: "setResponseHeaderOf ?oa" and sb: "setResponseHeaderOf None"
    and sc: "\<not> setResponseHeaderOf ?oc"
    and na: "headerNameOf ?oa = ''X-Request-Id''"
    by (simp_all add: setResponseHeaderOf_def headerNameOf_def coalesce_def
                      withHeaderName_def withEcho_def)
  have ea: "\<not> echoThrows counterUUID ?oa ?a" and eb: "echoThrows counterUUID None ?b"
    by (simp_all add: handler_defs response_defs sample_defs Let_def)
  have stale: "getHeader ''x-request-id'' (res ?a) = Some ''stale''"
    and none: "getHeader ''x-request-id'' (res ?c) = None"
    by (simp_all add: response_defs sample_defs)
  have low: "toLowerCase ''x-request-id'' = toLowerCase ''X-Request-Id''"
    by (simp add: toLowerCase_def lowerChar_def)
  have cand: "attachedId (requestIdMiddleware counterUUID ?oa ?a) = Some ''uuid-''"
    by (simp add: handler_defs response_defs sample_defs Let_def)
  from response_header_iff_enabled [OF ga, of counterUUID] sa ea na low cand
  have a: "echoedHeader ''x-request-id'' (requestIdMiddleware counterUUID ?oa ?a)
             = Some ''uuid-''"
    by (auto simp: echoedHeader_def attachedId_def finalWorld_def thrownBy_def
             split: sum.splits)
  from response_header_iff_enabled [OF gb, of counterUUID] sb eb
  have b: "thrownBy (requestIdMiddleware counterUUID None ?b) \<noteq> None
           \<and> res (finalWorld (requestIdMiddleware counterUUID None ?b)) = res ?b"
    by auto
  from response_header_iff_enabled [OF gc, of counterUUID] sc none
  have c: "echoedHeader ''x-request-id'' (requestIdMiddleware counterUUID ?oc ?c) = None
           \<and> attachedId (requestIdMiddleware counterUUID ?oc ?c) \<noteq> None"
    by (auto simp: echoedHeader_def attachedId_def finalWorld_def thrownBy_def
             split: sum.splits)
  from ga sa ea stale a cand gb sb eb b gc sc c show ?thesis by blast
qed

subsection \<open>The continuation\<close>

text \<open>
  Claim C6, as stated, fails. The claim says that on every call path on which the
  configured generator does not throw, the continuation is invoked exactly once and the
  handler signals no failure. The generator is not the only call that can throw:
  \<^verbatim>\<open>res.setHeader\<close> (line 132) runs unguarded before the attach and \<^verbatim>\<open>next()\<close>.
  Configured with the empty header name, or with a generator that returns a string
  holding a line feed, the handler throws what \<^verbatim>\<open>res.setHeader\<close> throws and the
  continuation is not invoked, although no generator throws.
\<close>

theorem continuation_not_reached_counterexample:
  "(\<not> generatorThrows (withHeaderName []) (req (requestWith []))
    \<and> thrownBy (requestIdMiddleware counterUUID (withHeaderName []) (requestWith []))
        = Some (Thrown ''ERR_INVALID_HTTP_TOKEN'')
    \<and> nextCalls (trace (finalWorld (requestIdMiddleware counterUUID (withHeaderName [])
                                        (requestWith []))))
        = [])
   \<and> (\<not> generatorThrows (withGenerator (fixedGenerator [CHR ''a'', CHR 0x0A, CHR ''b'']))
           (req (requestWith []))
    \<and> thrownBy (requestIdMiddleware counterUUID
                   (withGenerator (fixedGenerator [CHR ''a'', CHR 0x0A, CHR ''b'']))
                   (requestWith []))
        = Some (Thrown ''ERR_INVALID_CHAR'')
    \<and> nextCalls (trace (finalWorld (requestIdMiddleware counterUUID
                                        (withGenerator
                                           (fixedGenerator [CHR ''a'', CHR 0x0A, CHR ''b'']))
                                        (requestWith []))))
        = [])"
  by (simp add: handler_defs response_defs sample_defs Let_def)

text \<open>
  Claim C6, amended. The handler catches nothing and never passes an error to the
  continuation. For every configuration and every request, the run returns normally
  exactly when neither the configured generator nor \<^verbatim>\<open>res.setHeader\<close> (called when
  \<open>setResponseHeader\<close> is enabled) throws; it then has invoked the continuation exactly
  once, with no error argument, as the last thing before it returns. When one of the
  two calls throws, the exception leaves the handler and the continuation is not
  invoked.
\<close>

theorem continuation_called_once:
  "(thrownBy (requestIdMiddleware randomUUID opts w) = None
      \<longleftrightarrow> \<not> generatorThrows opts (req w) \<and> \<not> echoThrows randomUUID opts w)
   \<and> nextCalls (trace (finalWorld (requestIdMiddleware randomUUID opts w)))
       = nextCalls (trace w)
         @ (if thrownBy (requestIdMiddleware randomUUID opts w) = None then [None] else [])
   \<and> (thrownBy (requestIdMiddleware randomUUID opts w) = None
      \<longrightarrow> last (trace (finalWorld (requestIdMiddleware randomUUID opts w))) = NextCall None)"
proof (cases rule: middleware_cases [of randomUUID opts w])
  case (generator_throws e w1)
  from generateId_thrown(3) [OF generator_throws(1)] generator_throws(2,3)
  show ?thesis
    by (simp add: finalWorld_def thrownBy_def calls_simps)
next
  case (echo_throws gid w1 e)
  from generateId_frame(3) [OF echo_throws(1)] echo_throws(2,4)
  show ?thesis
    by (simp add: finalWorld_def thrownBy_def calls_simps)
next
  case (returns gid w1)
  from middleware_result [OF returns(1) refl returns(3)] obtain w'
    where run: "requestIdMiddleware randomUUID opts w = Inr w'"
      and tr: "trace w' = trace w
           @ [generationEvent randomUUID opts w]
           @ (if setResponseHeaderOf opts
              then [SetHeaderCall (headerNameOf opts)
                      (requestIdValue (incomingHeader (headerNameOf opts) (req w)) gid)]
              else [])
           @ [NextCall None]"
    by blast
  have "nextCalls (trace w') = nextCalls (trace w) @ [None]"
    unfolding tr by (simp add: calls_simps)
  moreover have "last (trace w') = NextCall None"
    unfolding tr by simp
  ultimately show ?thesis
    using run returns(2,3) by (simp add: finalWorld_def thrownBy_def)
qed

theorem continuation_called_once_witness:
  "\<not> generatorThrows (withGenerator (fixedGenerator ''fixed-id''))
        (req (requestWith [(''x-request-id'', Single ''abc-123'')]))
   \<and> \<not> echoThrows counterUUID (withGenerator (fixedGenerator ''fixed-id''))
          (requestWith [(''x-request-id'', Single ''abc-123'')])
   \<and> thrownBy (requestIdMiddleware counterUUID (withGenerator (fixedGenerator ''fixed-id''))
                 (requestWith [(''x-request-id'', Single ''abc-123'')])) = None
   \<and> nextCalls (trace (finalWorld
        (requestIdMiddleware counterUUID (withGenerator (fixedGenerator ''fixed-id''))
           (requestWith [(''x-request-id'', Single ''abc-123'')])))) = [None]
   \<and> last (trace (finalWorld
        (requestIdMiddleware counterUUID (withGenerator (fixedGenerator ''fixed-id''))
           (requestWith [(''x-request-id'', Single ''abc-123'')])))) = NextCall None"
proof -
  let ?o = "withGenerator (fixedGenerator ''fixed-id'')"
  let ?w = "requestWith [(''x-request-id'', Single ''abc-123'')]"
  have g: "\<not> generatorThrows ?o (req ?w)"
    by (simp add: generatorThrows_def withGenerator_def fixedGenerator_def)
  have e: "\<not> echoThrows counterUUID ?o ?w"
    by (simp add: handler_defs response_defs sample_defs Let_def)
  have t: "trace ?w = []"
    by (simp add: requestWith_def)
  from continuation_called_once [of counterUUID ?o ?w] g e t show ?thesis
    by simp
qed

subsection \<open>One identifier for every effect\<close>

text \<open>
  Claim C7. Each run resolves one string and uses it for every effect: after the run
  \<open>req.requestId\<close> holds it and, when \<open>setResponseHeader\<close> is enabled, the one
  \<open>setHeader\<close> call carried the same string and the response header under the
  configured name holds it. The run makes a single generation call, so nothing is
  computed again between the two writes. (Stated for a run in which neither the
  generator nor \<^verbatim>\<open>res.setHeader\<close> throws, so that both writes take place.)
\<close>

theorem single_identifier:
  assumes "\<not> generatorThrows opts (req w)"
    and "\<not> echoThrows randomUUID opts w"
  shows "\<exists>w' v. requestIdMiddleware randomUUID opts w = Inr w'
           \<and> requestId (req w') = Some v
           \<and> generationCalls (trace w') = Suc (generationCalls (trace w))
           \<and> (setResponseHeaderOf opts \<longrightarrow>
                 getHeader (headerNameOf opts) (res w') = Some v
               \<and> outHeaders (res w') (toLowerCase (headerNameOf opts))
                   = Some (headerNameOf opts, v)
               \<and> setHeaderCalls (trace w')
                   = setHeaderCalls (trace w) @ [(headerNameOf opts, v)])"
proof -
  from generateId_returns [OF assms(1)] obtain gid w1
    where gen: "generateId randomUUID opts w = Inr (gid, w1)" by blast
  define v where "v = requestIdValue (incomingHeader (headerNameOf opts) (req w)) gid"
  from middleware_result [OF gen v_def assms(2)] obtain w'
    where run: "requestIdMiddleware randomUUID opts w = Inr w'"
      and att: "requestId (req w') = Some v"
      and out: "res w' = (if setResponseHeaderOf opts
                          then (res w)\<lparr>outHeaders :=
                                 (outHeaders (res w))(toLowerCase (headerNameOf opts)
                                                        \<mapsto> (headerNameOf opts, v))\<rparr>
                          else res w)"
      and tr: "trace w' = trace w
           @ [generationEvent randomUUID opts w]
           @ (if setResponseHeaderOf opts then [SetHeaderCall (headerNameOf opts) v] else [])
           @ [NextCall None]"
    by blast
  have once: "generationCalls (trace w') = Suc (generationCalls (trace w))"
    unfolding tr by (simp add: calls_simps)
  have echo: "getHeader (headerNameOf opts) (res w') = Some v"
    and store: "outHeaders (res w') (toLowerCase (headerNameOf opts))
                  = Some (headerNameOf opts, v)"
    and call: "setHeaderCalls (trace w')
                 = setHeaderCalls (trace w) @ [(headerNameOf opts, v)]"
    if "setResponseHeaderOf opts"
    using that out tr by (simp_all add: getHeader_def calls_simps)
  from run att once echo store call show ?thesis by blast
qed

theorem single_identifier_witness:
  "\<not> generatorThrows None (req (requestWith []))
   \<and> \<not> echoThrows counterUUID None (requestWith [])
   \<and> setResponseHeaderOf None
   \<and> (\<exists>w' v. requestIdMiddleware counterUUID None (requestWith []) = Inr w'
            \<and> requestId (req w') = Some v
            \<and> getHeader ''x-request-id'' (res w') = Some v
            \<and> setHeaderCalls (trace w') = [(''x-request-id'', v)]
            \<and> generationCalls (trace w') = 1)"
proof -
  have g: "\<not> generatorThrows None (req (requestWith []))"
    by (simp add: generatorThrows_def)
  have r: "\<not> echoThrows counterUUID None (requestWith [])"
    by (simp add: handler_defs response_defs sample_defs Let_def)
  have e: "setResponseHeaderOf None" and n: "headerNameOf None = ''x-request-id''"
    by (simp_all add: setResponseHeaderOf_def headerNameOf_def coalesce_def)
  have t: "trace (requestWith []) = []"
    by (simp add: requestWith_def)
  from single_identifier [OF g r] e n t
  have "\<exists>w' v. requestIdMiddleware counterUUID None (requestWith []) = Inr w'
            \<and> requestId (req w') = Some v
            \<and> getHeader ''x-request-id'' (res w') = Some v
            \<and> setHeaderCalls (trace w') = [(''x-request-id'', v)]
            \<and> generationCalls (trace w') = 1"
    by (auto simp: generationCalls_def)
  with g r e show ?thesis by blast
qed

subsection \<open>Determinism\<close>

text \<open>
  Claim C8. Two runs of a handler built from one configuration with a deterministic
  generator, on requests with identical headers, resolve the same identifier: if the
  generator returns the same string for both requests, both runs attach the same
  identifier and, when echoing is enabled, write the same value under the configured
  name. The two runs may start from different responses, traces and entropy states.
  (Stated for runs in which \<^verbatim>\<open>res.setHeader\<close> does not throw, so that both resolve an
  identifier.)
\<close>

theorem resolution_deterministic:
  assumes "Option.bind opts generator = Some gen"
    and "gen (req wa) = Inr s" and "gen (req wb) = Inr s"
    and "headers (req wa) = headers (req wb)"
    and "\<not> echoThrows randomUUIDa opts wa" and "\<not> echoThrows randomUUIDb opts wb"
  shows "\<exists>wa' wb' v. requestIdMiddleware randomUUIDa opts wa = Inr wa'
           \<and> requestIdMiddleware randomUUIDb opts wb = Inr wb'
           \<and> requestId (req wa') = Some v
           \<and> requestId (req wb') = Some v
           \<and> (setResponseHeaderOf opts \<longrightarrow>
                 getHeader (headerNameOf opts) (res wa') = Some v
               \<and> getHeader (headerNameOf opts) (res wb') = Some v)"
proof -
  define v where "v = requestIdValue (incomingHeader (headerNameOf opts) (req wa)) s"
  have same: "v = requestIdValue (incomingHeader (headerNameOf opts) (req wb)) s"
    using assms(4) by (simp add: v_def incomingHeader_def)
  from middleware_result [OF generateId_configured [OF assms(1,2)] v_def assms(5)] obtain wa'
    where a: "requestIdMiddleware randomUUIDa opts wa = Inr wa'"
      "requestId (req wa') = Some v"
      "res wa' = (if setResponseHeaderOf opts
                  then (res wa)\<lparr>outHeaders :=
                         (outHeaders (res wa))(toLowerCase (headerNameOf opts)
                                                 \<mapsto> (headerNameOf opts, v))\<rparr>
                  else res wa)"
    by blast
  from middleware_result [OF generateId_configured [OF assms(1,3)] same assms(6)] obtain wb'
    where b: "requestIdMiddleware randomUUIDb opts wb = Inr wb'"
      "requestId (req wb') = Some v"
      "res wb' = (if setResponseHeaderOf opts
                  then (res wb)\<lparr>outHeaders :=
                         (outHeaders (res wb))(toLowerCase (headerNameOf opts)
                                                 \<mapsto> (headerNameOf opts, v))\<rparr>
                  else res wb)"
    by blast
  have "getHeader (headerNameOf opts) (res wa') = Some v"
    and "getHeader (headerNameOf opts) (res wb') = Some v"
    if "setResponseHeaderOf opts"
    using that a(3) b(3) by (simp_all add: getHeader_def)
  with a(1,2) b(1,2) show ?thesis by blast
qed

theorem resolution_deterministic_witness:
  "Option.bind (withGenerator (fixedGenerator ''fixed-id'')) generator
     = Some (fixedGenerator ''fixed-id'')
   \<and> fixedGenerator ''fixed-id'' (req (requestWith [])) = Inr ''fixed-id''
   \<and> fixedGenerator ''fixed-id'' (req ((requestWith [])\<lparr>entropy := 7\<rparr>)) = Inr ''fixed-id''
   \<and> headers (req (requestWith [])) = headers (req ((requestWith [])\<lparr>entropy := 7\<rparr>))
   \<and> \<not> echoThrows counterUUID (withGenerator (fixedGenerator ''fixed-id'')) (requestWith [])
   \<and> \<not> echoThrows counterUUID (withGenerator (fixedGenerator ''fixed-id''))
          ((requestWith [])\<lparr>entropy := 7\<rparr>)
   \<and> setResponseHeaderOf (withGenerator (fixedGenerator ''fixed-id''))
   \<and> attachedId (requestIdMiddleware counterUUID (withGenerator (fixedGenerator ''fixed-id''))
                   (requestWith []))
       = attachedId (requestIdMiddleware counterUUID
                       (withGenerator (fixedGenerator ''fixed-id''))
                       ((requestWith [])\<lparr>entropy := 7\<rparr>))
   \<and> echoedHeader ''x-request-id''
         (requestIdMiddleware counterUUID (withGenerator (fixedGenerator ''fixed-id''))
            (requestWith []))
       = echoedHeader ''x-request-id''
           (requestIdMiddleware counterUUID (withGenerator (fixedGenerator ''fixed-id''))
              ((requestWith [])\<lparr>entropy := 7\<rparr>))
   \<and> attachedId (requestIdMiddleware counterUUID (withGenerator (fixedGenerator ''fixed-id''))
                   (requestWith []))
       \<noteq> None"
proof -
  let ?o = "withGenerator (fixedGenerator ''fixed-id'')"
  let ?a = "requestWith []"
  let ?b = "(requestWith [])\<lparr>entropy := 7\<rparr>"
  have c: "Option.bind ?o generator = Some (fixedGenerator ''fixed-id'')"
    by (simp add: withGenerator_def)
  have ga: "fixedGenerator ''fixed-id'' (req ?a) = Inr ''fixed-id''"
    and gb: "fixedGenerator ''fixed-id'' (req ?b) = Inr ''fixed-id''"
    by (simp_all add: fixedGenerator_def)
  have h: "headers (req ?a) = headers (req ?b)"
    by simp
  have ra: "\<not> echoThrows counterUUID ?o ?a" and rb: "\<not> echoThrows counterUUID ?o ?b"
    by (simp_all add: handler_defs response_defs sample_defs Let_def)
  have e: "setResponseHeaderOf ?o" and n: "headerNameOf ?o = ''x-request-id''"
    by (simp_all add: setResponseHeaderOf_def headerNameOf_def coalesce_def withGenerator_def)
  from resolution_deterministic [OF c ga gb h ra rb] e n
  have "attachedId (requestIdMiddleware counterUUID ?o ?a)
          = attachedId (requestIdMiddleware counterUUID ?o ?b)
        \<and> echoedHeader ''x-request-id'' (requestIdMiddleware counterUUID ?o ?a)
          = echoedHeader ''x-request-id'' (requestIdMiddleware counterUUID ?o ?b)
        \<and> attachedId (requestIdMiddleware counterUUID ?o ?a) \<noteq> None"
    by (auto simp: attachedId_def echoedHeader_def)
  with c ga gb h ra rb e show ?thesis by blast
qed

subsection \<open>The generator's output is taken as it is\<close>

text \<open>
  Claim C9, as stated, fails in its last clause. The claim ends: the empty-value
  fallback applies only to incoming header values, not to generator output. There is
  no such fallback for incoming header values either: with a generator that returns
  \<open>fixed-id\<close> and the header \<^verbatim>\<open>x-request-id: ""\<close>, the candidate is \<open>fixed-id\<close> and the
  identifier attached is the empty string.
\<close>

theorem incoming_empty_not_replaced_counterexample:
  "candidateId (generateId counterUUID (withGenerator (fixedGenerator ''fixed-id''))
                  (requestWith [(''x-request-id'', Single [])])) = Some ''fixed-id''
   \<and> attachedId (requestIdMiddleware counterUUID (withGenerator (fixedGenerator ''fixed-id''))
                   (requestWith [(''x-request-id'', Single [])])) = Some []
   \<and> echoedHeader ''x-request-id''
        (requestIdMiddleware counterUUID (withGenerator (fixedGenerator ''fixed-id''))
           (requestWith [(''x-request-id'', Single [])])) = Some []"
  by (simp add: handler_defs response_defs sample_defs Let_def)

text \<open>
  Claim C9, amended. The string a configured generator returns is not checked:
  whatever string it returns, the empty string included, when the lookup under the
  configured header name finds nothing that string is the identifier attached as
  \<open>req.requestId\<close> and, when echoing is enabled, the value written on the response.
  No empty-value fallback applies to the generator's output, and none applies to an
  incoming header value: an empty incoming value is attached as it is, whatever the
  generator returned. (Stated for a run in which \<^verbatim>\<open>res.setHeader\<close> does not throw.)
\<close>

theorem generator_output_not_validated:
  assumes "Option.bind opts generator = Some gen"
    and "gen (req w) = Inr s"
    and "\<not> echoThrows randomUUID opts w"
  shows "\<exists>w'. requestIdMiddleware randomUUID opts w = Inr w'
           \<and> (incomingHeader (headerNameOf opts) (req w) = None
                \<or> incomingHeader (headerNameOf opts) (req w) = Some (Multiple []) \<longrightarrow>
                  requestId (req w') = Some s
                \<and> (setResponseHeaderOf opts \<longrightarrow>
                      getHeader (headerNameOf opts) (res w') = Some s))
           \<and> (incomingHeader (headerNameOf opts) (req w) = Some (Single []) \<longrightarrow>
                  requestId (req w') = Some []
                \<and> (setResponseHeaderOf opts \<longrightarrow>
                      getHeader (headerNameOf opts) (res w') = Some []))"
proof -
  define v where "v = requestIdValue (incomingHeader (headerNameOf opts) (req w)) s"
  from middleware_result [OF generateId_configured [OF assms(1,2)] v_def assms(3)] obtain w'
    where run: "requestIdMiddleware randomUUID opts w = Inr w'"
      and att: "requestId (req w') = Some v"
      and out: "res w' = (if setResponseHeaderOf opts
                          then (res w)\<lparr>outHeaders :=
                                 (outHeaders (res w))(toLowerCase (headerNameOf opts)
                                                        \<mapsto> (headerNameOf opts, v))\<rparr>
                          else res w)"
    by blast
  have echo: "getHeader (headerNameOf opts) (res w') = Some v" if "setResponseHeaderOf opts"
    using that out by (simp add: getHeader_def)
  have absent: "v = s"
    if "incomingHeader (headerNameOf opts) (req w) = None
        \<or> incomingHeader (headerNameOf opts) (req w) = Some (Multiple [])"
    using that by (auto simp: v_def requestIdValue_def coalesce_def)
  have empty: "v = []" if "incomingHeader (headerNameOf opts) (req w) = Some (Single [])"
    using that by (simp add: v_def requestIdValue_def coalesce_def)
  from run att echo absent empty show ?thesis by auto
qed

theorem generator_output_not_validated_witness:
  "(Option.bind (withGenerator (fixedGenerator [])) generator = Some (fixedGenerator [])
    \<and> fixedGenerator [] (req (requestWith [])) = Inr []
    \<and> \<not> echoThrows counterUUID (withGenerator (fixedGenerator [])) (requestWith [])
    \<and> incomingHeader (headerNameOf (withGenerator (fixedGenerator []))) (req (requestWith []))
        = None
    \<and> setResponseHeaderOf (withGenerator (fixedGenerator []))
    \<and> attachedId (requestIdMiddleware counterUUID (withGenerator (fixedGenerator []))
                    (requestWith [])) = Some []
    \<and> echoedHeader ''x-request-id''
         (requestIdMiddleware counterUUID (withGenerator (fixedGenerator []))
            (requestWith [])) = Some [])
   \<and> (Option.bind (withGenerator (fixedGenerator ''fixed-id'')) generator
        = Some (fixedGenerator ''fixed-id'')
    \<and> fixedGenerator ''fixed-id'' (req (requestWith [(''x-request-id'', Single [])]))
        = Inr ''fixed-id''
    \<and> \<not> echoThrows counterUUID (withGenerator (fixedGenerator ''fixed-id''))
           (requestWith [(''x-request-id'', Single [])])
    \<and> incomingHeader (headerNameOf (withGenerator (fixedGenerator ''fixed-id'')))
         (req (requestWith [(''x-request-id'', Single [])]))
        = Some (Single [])
    \<and> attachedId (requestIdMiddleware counterUUID (withGenerator (fixedGenerator ''fixed-id''))
                    (requestWith [(''x-request-id'', Single [])])) = Some [])"
proof -
  let ?oa = "withGenerator (fixedGenerator [])"
  let ?a = "requestWith []"
  let ?ob = "withGenerator (fixedGenerator ''fixed-id'')"
  let ?b = "requestWith [(''x-request-id'', Single [])]"
  have ca: "Option.bind ?oa generator = Some (fixedGenerator [])"
    and cb: "Option.bind ?ob generator = Some (fixedGenerator ''fixed-id'')"
    by (simp_all add: withGenerator_def)
  have ga: "fixedGenerator [] (req ?a) = Inr []"
    and gb: "fixedGenerator ''fixed-id'' (req ?b) = Inr ''fixed-id''"
    by (simp_all add: fixedGenerator_def)
  have ra: "\<not> echoThrows counterUUID ?oa ?a" and rb: "\<not> echoThrows counterUUID ?ob ?b"
    by (simp_all add: handler_defs response_defs sample_defs Let_def)
  have e: "setResponseHeaderOf ?oa" and na: "headerNameOf ?oa = ''x-request-id''"
    and nb: "headerNameOf ?ob = ''x-request-id''"
    by (simp_all add: setResponseHeaderOf_def headerNameOf_def coalesce_def withGenerator_def)
  have ha: "incomingHeader (headerNameOf ?oa) (req ?a) = None"
    and hb: "incomingHeader (headerNameOf ?ob) (req ?b) = Some (Single [])"
    by (simp_all add: na nb incomingHeader_def requestWith_def)
  from generator_output_not_validated [OF ca ga ra] ha e na
  have a: "attachedId (requestIdMiddleware counterUUID ?oa ?a) = Some []
           \<and> echoedHeader ''x-request-id'' (requestIdMiddleware counterUUID ?oa ?a) = Some []"
    by (auto simp: attachedId_def echoedHeader_def)
  from generator_output_not_validated [OF cb gb rb] hb
  have b: "attachedId (requestIdMiddleware counterUUID ?ob ?b) = Some []"
    by (auto simp: attachedId_def)
  from ca ga ra ha e a cb gb rb hb b show ?thesis by blast
qed

subsection \<open>A request without a header collection\<close>

text \<open>
  Claim C10. When \<open>req.headers\<close> is \<open>undefined\<close> the handler does not fail: the
  lookup gives "absent", the candidate identifier is the one attached as
  \<open>req.requestId\<close>, and the continuation is called once with no error. (Stated for a
  run in which neither the generator nor \<^verbatim>\<open>res.setHeader\<close> throws; the lookup itself
  never does.)
\<close>

theorem absent_headers_total:
  assumes "headers (req w) = None"
    and "\<not> generatorThrows opts (req w)"
    and "\<not> echoThrows randomUUID opts w"
  shows "\<exists>w' gid w1. generateId randomUUID opts w = Inr (gid, w1)
           \<and> incomingHeader (headerNameOf opts) (req w) = None
           \<and> requestIdMiddleware randomUUID opts w = Inr w'
           \<and> requestId (req w') = Some gid
           \<and> nextCalls (trace w') = nextCalls (trace w) @ [None]"
proof -
  from generateId_returns [OF assms(2)] obtain gid w1
    where gen: "generateId randomUUID opts w = Inr (gid, w1)" by blast
  have absent: "incomingHeader (headerNameOf opts) (req w) = None"
    using assms(1) by (simp add: incomingHeader_def)
  then have v: "gid = requestIdValue (incomingHeader (headerNameOf opts) (req w)) gid"
    by (simp add: requestIdValue_def coalesce_def)
  from middleware_result [OF gen v assms(3)] obtain w'
    where run: "requestIdMiddleware randomUUID opts w = Inr w'"
      and att: "requestId (req w') = Some gid"
      and tr: "trace w' = trace w
           @ [generationEvent randomUUID opts w]
           @ (if setResponseHeaderOf opts then [SetHeaderCall (headerNameOf opts) gid] else [])
           @ [NextCall None]"
    by blast
  have "nextCalls (trace w') = nextCalls (trace w) @ [None]"
    unfolding tr by (simp add: calls_simps)
  with gen absent run att show ?thesis by blast
qed

theorem absent_headers_total_witness:
  "headers (req requestWithoutHeaders) = None
   \<and> \<not> generatorThrows None (req requestWithoutHeaders)
   \<and> \<not> echoThrows counterUUID None requestWithoutHeaders
   \<and> candidateId (generateId counterUUID None requestWithoutHeaders) = Some ''uuid-''
   \<and> (\<exists>w'. requestIdMiddleware counterUUID None requestWithoutHeaders = Inr w'
          \<and> requestId (req w') = Some ''uuid-''
          \<and> nextCalls (trace w') = [None])"
proof -
  have h: "headers (req requestWithoutHeaders) = None"
    and t: "trace requestWithoutHeaders = []"
    by (simp_all add: requestWithoutHeaders_def)
  have g: "\<not> generatorThrows None (req requestWithoutHeaders)"
    by (simp add: generatorThrows_def)
  have r: "\<not> echoThrows counterUUID None requestWithoutHeaders"
    by (simp add: handler_defs response_defs sample_defs Let_def)
  have c: "candidateId (generateId counterUUID None requestWithoutHeaders) = Some ''uuid-''"
    by (simp add: candidateId_def generateId_def counterUUID_def requestWithoutHeaders_def)
  from absent_headers_total [OF h g r] c t
  have "\<exists>w'. requestIdMiddleware counterUUID None requestWithoutHeaders = Inr w'
          \<and> requestId (req w') = Some ''uuid-''
          \<and> nextCalls (trace w') = [None]"
    by (auto simp: candidateId_def)
  with h g r c show ?thesis by blast
qed

end
